theory Spec2Isabelle
  imports Complex_Main
begin

section \<open>Data model\<close>

text \<open>
  A shallow embedding of the fall-decision engine of the repository:
  \<^verbatim>\<open>src/pose_detection/utils/angle_calc.py\<close> (geometry functions and the
  \<^verbatim>\<open>AngleTracker\<close>) and \<^verbatim>\<open>src/pose_detection/fall_detector.py\<close> (the
  \<^verbatim>\<open>FallDetector\<close>).

  Conventions of the embedding.
  \<^item> Python \<^verbatim>\<open>int\<close> is \<^typ>\<open>int\<close>. Python \<^verbatim>\<open>float\<close> is idealised as
    \<^typ>\<open>real\<close>: rounding, infinities and NaN are not modelled.
  \<^item> A landmark dictionary \<^verbatim>\<open>Dict[str, Tuple[int, int]]\<close> is a map from joint
    names to integer points.
  \<^item> A Python exception is a value of \<open>py_error\<close>; a call that can raise returns a sum
    whose \<open>Inl\<close> side is the exception.
  \<^item> Methods that mutate \<^verbatim>\<open>self\<close> take the object and return the updated one.
  \<^item> \<^verbatim>\<open>time.time()\<close> is an input: \<open>detect\<close> receives the values that its
    (up to three) reads of the clock return, in program order.
\<close>

type_synonym point = "int \<times> int"

type_synonym landmarks = "string \<rightharpoonup> point"

datatype py_error = ZeroDivisionError | IndexError | ValueError

datatype AlertSeverity = NONE | MILD | SEVERE

text \<open>The \<^verbatim>\<open>.value\<close> of the enumeration members.\<close>

fun severity_value :: "AlertSeverity \<Rightarrow> int" where
  "severity_value NONE = 0"
| "severity_value MILD = 1"
| "severity_value SEVERE = 2"

section \<open>Geometry: \<^verbatim>\<open>angle_calc.py\<close>\<close>

text \<open>
  \<^verbatim>\<open>math.atan2(y, x)\<close> on finite arguments (signed zeros are not distinguished; the
  callers pass absolute values of integers, which are never \<open>-0.0\<close>), and
  \<^verbatim>\<open>math.degrees\<close>.
\<close>

definition py_atan2 :: "real \<Rightarrow> real \<Rightarrow> real" where
  "py_atan2 y x =
     (if 0 < x then arctan (y / x)
      else if x < 0 then (if 0 \<le> y then arctan (y / x) + pi else arctan (y / x) - pi)
      else if 0 < y then pi / 2
      else if y < 0 then - (pi / 2)
      else 0)"

definition py_degrees :: "real \<Rightarrow> real" where
  "py_degrees r = r * 180 / pi"

text \<open>\<^verbatim>\<open>int(x)\<close> on a float: truncation toward zero.\<close>

definition py_int :: "real \<Rightarrow> int" where
  "py_int x = (if 0 \<le> x then \<lfloor>x\<rfloor> else \<lceil>x\<rceil>)"

text \<open>\<^verbatim>\<open>calculate_angle_from_vertical\<close> (lines 11-37).\<close>

definition calculate_angle_from_vertical :: "point \<Rightarrow> point \<Rightarrow> real" where
  "calculate_angle_from_vertical point1 point2 =
     (let dx = fst point2 - fst point1;
          dy = snd point2 - snd point1;
          angle_rad = py_atan2 (real_of_int \<bar>dx\<bar>) (real_of_int \<bar>dy\<bar>)
      in py_degrees angle_rad)"

text \<open>
  \<^verbatim>\<open>calculate_torso_angle\<close> (lines 40-71). The loop over \<^verbatim>\<open>required_points\<close>
  returns \<^verbatim>\<open>None\<close> at the first missing joint, in the order left shoulder, right
  shoulder, left hip, right hip.
\<close>

definition calculate_torso_angle :: "landmarks \<Rightarrow> real option" where
  "calculate_torso_angle landmarks =
     (case landmarks ''left_shoulder'' of None \<Rightarrow> None | Some ls \<Rightarrow>
      (case landmarks ''right_shoulder'' of None \<Rightarrow> None | Some rs \<Rightarrow>
       (case landmarks ''left_hip'' of None \<Rightarrow> None | Some lh \<Rightarrow>
        (case landmarks ''right_hip'' of None \<Rightarrow> None | Some rh \<Rightarrow>
          (let shoulder_mid_x = real_of_int (fst ls + fst rs) / 2;
               shoulder_mid_y = real_of_int (snd ls + snd rs) / 2;
               hip_mid_x = real_of_int (fst lh + fst rh) / 2;
               hip_mid_y = real_of_int (snd lh + snd rh) / 2;
               shoulder_mid = (py_int shoulder_mid_x, py_int shoulder_mid_y);
               hip_mid = (py_int hip_mid_x, py_int hip_mid_y)
           in Some (calculate_angle_from_vertical shoulder_mid hip_mid))))))"

text \<open>\<^verbatim>\<open>calculate_body_center\<close> (lines 154-184).\<close>

definition calculate_body_center :: "landmarks \<Rightarrow> point option" where
  "calculate_body_center landmarks =
     (case landmarks ''left_shoulder'' of None \<Rightarrow> None | Some ls \<Rightarrow>
      (case landmarks ''right_shoulder'' of None \<Rightarrow> None | Some rs \<Rightarrow>
       (case landmarks ''left_hip'' of None \<Rightarrow> None | Some p2 \<Rightarrow>
        (case landmarks ''right_hip'' of None \<Rightarrow> None | Some p3 \<Rightarrow>
          (let shoulder_mid_x = real_of_int (fst ls + fst rs) / 2;
               shoulder_mid_y = real_of_int (snd ls + snd rs) / 2;
               center_x = (shoulder_mid_x + real_of_int (fst p2) + real_of_int (fst p3)) / 3;
               center_y = (shoulder_mid_y + real_of_int (snd p2) + real_of_int (snd p3)) / 3
           in Some (py_int center_x, py_int center_y))))))"

text \<open>
  \<^verbatim>\<open>calculate_head_height_ratio\<close> (lines 187-207). The true division
  \<^verbatim>\<open>nose_y / frame_height\<close> raises \<^verbatim>\<open>ZeroDivisionError\<close> when the frame height is
  zero; the source has no guard.
\<close>

definition calculate_head_height_ratio :: "landmarks \<Rightarrow> int \<Rightarrow> py_error + real option" where
  "calculate_head_height_ratio landmarks frame_height =
     (case landmarks ''nose'' of
        None \<Rightarrow> Inr None
      | Some nose \<Rightarrow>
          (let nose_y = snd nose
           in if frame_height = 0 then Inl ZeroDivisionError
              else Inr (Some (real_of_int nose_y / real_of_int frame_height))))"

text \<open>\<^verbatim>\<open>calculate_center_shift\<close> (lines 210-225).\<close>

definition calculate_center_shift :: "point \<Rightarrow> point \<Rightarrow> real" where
  "calculate_center_shift current_center previous_center =
     (let dx = fst current_center - fst previous_center;
          dy = snd current_center - snd previous_center
      in sqrt (real_of_int (dx * dx + dy * dy)))"

section \<open>The tracker: class \<^verbatim>\<open>AngleTracker\<close>\<close>

record AngleTracker =
  history_size :: int
  torso_history :: "real list"
  center_history :: "point list"
  head_height_history :: "real list"

definition AngleTracker_init :: "int \<Rightarrow> AngleTracker" where
  "AngleTracker_init hs =
     \<lparr>history_size = hs, torso_history = [], center_history = [], head_height_history = []\<rparr>"

text \<open>
  The pattern repeated three times in \<^verbatim>\<open>update\<close>: \<^verbatim>\<open>h.append(v)\<close>, then
  \<^verbatim>\<open>h.pop(0)\<close> if \<^verbatim>\<open>len(h) > self.history_size\<close>. The list is not empty after
  the append, so \<^verbatim>\<open>pop(0)\<close> cannot raise.
\<close>

definition append_evict :: "int \<Rightarrow> 'a list \<Rightarrow> 'a option \<Rightarrow> 'a list" where
  "append_evict hs h v =
     (case v of
        None \<Rightarrow> h
      | Some x \<Rightarrow> (let h' = h @ [x] in if int (length h') > hs then tl h' else h'))"

text \<open>\<^verbatim>\<open>AngleTracker.update\<close> (lines 266-291).\<close>

definition update :: "AngleTracker \<Rightarrow> real option \<Rightarrow> point option \<Rightarrow> real option \<Rightarrow> AngleTracker" where
  "update t torso_angle center head_height =
     t\<lparr>torso_history := append_evict (history_size t) (torso_history t) torso_angle,
       center_history := append_evict (history_size t) (center_history t) center,
       head_height_history := append_evict (history_size t) (head_height_history t) head_height\<rparr>"

text \<open>
  Python list indexing \<^verbatim>\<open>xs[i]\<close>: a negative index counts from the end, an index out
  of range raises \<^verbatim>\<open>IndexError\<close>.
\<close>

definition py_index :: "'a list \<Rightarrow> int \<Rightarrow> py_error + 'a" where
  "py_index xs i =
     (if 0 \<le> i \<and> i < int (length xs) then Inr (xs ! nat i)
      else if i < 0 \<and> - int (length xs) \<le> i then Inr (xs ! nat (int (length xs) + i))
      else Inl IndexError)"

text \<open>
  \<^verbatim>\<open>get_center_shift\<close> (lines 305-312) and \<^verbatim>\<open>get_head_height_change\<close>
  (lines 314-318). The indices \<^verbatim>\<open>[-1]\<close> and \<^verbatim>\<open>[-2]\<close> are read under the guard
  \<^verbatim>\<open>len(h) >= 2\<close>, where they are the last and the last but one element.
\<close>

definition get_center_shift :: "AngleTracker \<Rightarrow> real option" where
  "get_center_shift t =
     (let h = center_history t
      in if length h < 2 then None
         else Some (calculate_center_shift (h ! (length h - 1)) (h ! (length h - 2))))"

definition get_head_height_change :: "AngleTracker \<Rightarrow> real option" where
  "get_head_height_change t =
     (let h = head_height_history t
      in if length h < 2 then None
         else Some (h ! (length h - 1) - h ! (length h - 2)))"

text \<open>
  The loop of \<^verbatim>\<open>get_max_center_shift\<close> (lines 336-341) over the indices of
  \<^verbatim>\<open>range(-check_frames, 0)\<close>, with checked indexing.
\<close>

fun collect_shifts :: "point list \<Rightarrow> int list \<Rightarrow> py_error + real list" where
  "collect_shifts h [] = Inr []"
| "collect_shifts h (i # rest) =
     (case py_index h i of
        Inl e \<Rightarrow> Inl e
      | Inr a \<Rightarrow>
          (case py_index h (i - 1) of
             Inl e \<Rightarrow> Inl e
           | Inr b \<Rightarrow>
               (case collect_shifts h rest of
                  Inl e \<Rightarrow> Inl e
                | Inr shifts \<Rightarrow> Inr (calculate_center_shift a b # shifts))))"

text \<open>\<^verbatim>\<open>max(shifts)\<close>: raises \<^verbatim>\<open>ValueError\<close> on an empty list.\<close>

fun py_max :: "real list \<Rightarrow> py_error + real" where
  "py_max [] = Inl ValueError"
| "py_max (x # xs) = Inr (fold max xs x)"

text \<open>\<^verbatim>\<open>get_max_center_shift\<close> (lines 320-343).\<close>

definition get_max_center_shift :: "AngleTracker \<Rightarrow> int \<Rightarrow> py_error + real option" where
  "get_max_center_shift t frames =
     (let h = center_history t
      in if length h < 2 then Inr None
         else
           (let check_frames = min frames (int (length h) - 1)
            in case collect_shifts h [- check_frames ..  - 1] of
                 Inl e \<Rightarrow> Inl e
               | Inr shifts \<Rightarrow>
                   if shifts = [] then Inr None
                   else (case py_max shifts of
                           Inl e \<Rightarrow> Inl e
                         | Inr m \<Rightarrow> Inr (Some m))))"

text \<open>\<^verbatim>\<open>AngleTracker.reset\<close> (lines 345-349).\<close>

definition reset :: "AngleTracker \<Rightarrow> AngleTracker" where
  "reset t = t\<lparr>torso_history := [], center_history := [], head_height_history := []\<rparr>"

section \<open>The decision engine: class \<^verbatim>\<open>FallDetector\<close>\<close>

record FallDetector =
  torso_angle_threshold :: real
  head_drop_threshold :: real
  center_shift_threshold :: real
  consecutive_frames :: int
  cooldown_seconds :: real
  mild_angle_range :: "real \<times> real"
  severe_angle_min :: real
  angle_tracker :: AngleTracker
  consecutive_detections :: int
  last_alert_time :: real
  baseline_head_height :: "real option"
  baseline_center :: "point option"
  is_calibrated :: bool

text \<open>
  The entries of \<^verbatim>\<open>trigger_reasons\<close>. The source appends three fixed messages, the
  first one formatted with the torso angle; the constructor keeps the angle instead of
  its decimal rendering.
\<close>

datatype trigger_reason = TorsoAngleAbnormal real | HeadHeightDrop | CenterLargeShift

record DetectionResult =
  is_fall_detected :: bool
  severity :: AlertSeverity
  torso_angle :: "real option"
  head_height :: "real option"
  center_shift :: "real option"
  trigger_reasons :: "trigger_reason list"
  timestamp :: real
  confidence :: real

text \<open>
  The values returned by the reads of \<^verbatim>\<open>time.time()\<close> during one call of
  \<^verbatim>\<open>detect\<close>, in program order: in \<^verbatim>\<open>_is_in_cooldown\<close> (line 169), in the
  assignment of \<^verbatim>\<open>last_alert_time\<close> (line 262) and in the \<^verbatim>\<open>timestamp\<close> of the
  result (line 274).
\<close>

record clock_reads =
  t_cooldown :: real
  t_alert :: real
  t_stamp :: real

text \<open>
  \<^verbatim>\<open>FallDetector.__init__\<close> (lines 55-95). The body only stores its arguments and
  initialises the state; it has no check and no \<^verbatim>\<open>raise\<close>.
\<close>

definition FallDetector_init ::
  "real \<Rightarrow> real \<Rightarrow> real \<Rightarrow> int \<Rightarrow> real \<Rightarrow> real \<times> real \<Rightarrow> real \<Rightarrow> FallDetector" where
  "FallDetector_init torso_thr head_thr center_thr frames cooldown mild_range severe_min =
     \<lparr>torso_angle_threshold = torso_thr,
      head_drop_threshold = head_thr,
      center_shift_threshold = center_thr,
      consecutive_frames = frames,
      cooldown_seconds = cooldown,
      mild_angle_range = mild_range,
      severe_angle_min = severe_min,
      angle_tracker = AngleTracker_init 30,
      consecutive_detections = 0,
      last_alert_time = 0,
      baseline_head_height = None,
      baseline_center = None,
      is_calibrated = False\<rparr>"

text \<open>
  The outcome of the constructor call \<^verbatim>\<open>FallDetector(...)\<close>: since \<^verbatim>\<open>__init__\<close>
  cannot raise, the call always returns the instance.
\<close>

definition FallDetector_new ::
  "real \<Rightarrow> real \<Rightarrow> real \<Rightarrow> int \<Rightarrow> real \<Rightarrow> real \<times> real \<Rightarrow> real \<Rightarrow> py_error + FallDetector" where
  "FallDetector_new torso_thr head_thr center_thr frames cooldown mild_range severe_min =
     Inr (FallDetector_init torso_thr head_thr center_thr frames cooldown mild_range severe_min)"

text \<open>The detector with the default arguments of \<^verbatim>\<open>__init__\<close>.\<close>

definition default_detector :: FallDetector where
  "default_detector = FallDetector_init 35 0.15 150 5 30 (35, 50) 50"

text \<open>\<^verbatim>\<open>calibrate\<close> (lines 97-107) and \<^verbatim>\<open>reset_calibration\<close> (lines 109-114).\<close>

definition calibrate :: "FallDetector \<Rightarrow> real \<Rightarrow> point \<Rightarrow> FallDetector" where
  "calibrate self hh center =
     self\<lparr>baseline_head_height := Some hh, baseline_center := Some center, is_calibrated := True\<rparr>"

definition reset_calibration :: "FallDetector \<Rightarrow> FallDetector" where
  "reset_calibration self =
     self\<lparr>baseline_head_height := None, baseline_center := None, is_calibrated := False,
          angle_tracker := reset (angle_tracker self)\<rparr>"

text \<open>\<^verbatim>\<open>force_reset_cooldown\<close> (lines 307-310).\<close>

definition force_reset_cooldown :: "FallDetector \<Rightarrow> FallDetector" where
  "force_reset_cooldown self = self\<lparr>last_alert_time := 0, consecutive_detections := 0\<rparr>"

text \<open>\<^verbatim>\<open>_check_torso_angle\<close> (lines 116-130).\<close>

definition check_torso_angle :: "FallDetector \<Rightarrow> real \<Rightarrow> bool \<times> AlertSeverity" where
  "check_torso_angle self angle =
     (if angle \<ge> severe_angle_min self then (True, SEVERE)
      else if angle \<ge> fst (mild_angle_range self) then (True, MILD)
      else (False, NONE))"

text \<open>\<^verbatim>\<open>_check_head_drop\<close> (lines 132-153).\<close>

definition check_head_drop :: "FallDetector \<Rightarrow> real \<Rightarrow> bool" where
  "check_head_drop self current_height =
     (let height_change = get_head_height_change (angle_tracker self)
      in if (case height_change of None \<Rightarrow> False | Some c \<Rightarrow> c > head_drop_threshold self)
         then True
         else (case baseline_head_height self of
                 None \<Rightarrow> False
               | Some b \<Rightarrow>
                   (let diff = current_height - b
                    in if diff > head_drop_threshold self * 2 then True else False)))"

text \<open>\<^verbatim>\<open>_check_center_shift\<close> (lines 155-165).\<close>

definition check_center_shift :: "FallDetector \<Rightarrow> py_error + bool" where
  "check_center_shift self =
     (case get_max_center_shift (angle_tracker self) 5 of
        Inl e \<Rightarrow> Inl e
      | Inr max_shift \<Rightarrow>
          Inr (case max_shift of None \<Rightarrow> False | Some m \<Rightarrow> m > center_shift_threshold self))"

text \<open>\<^verbatim>\<open>_is_in_cooldown\<close> (lines 167-169); \<open>now\<close> is the value of \<^verbatim>\<open>time.time()\<close>.\<close>

definition is_in_cooldown :: "FallDetector \<Rightarrow> real \<Rightarrow> bool" where
  "is_in_cooldown self now = (now - last_alert_time self < cooldown_seconds self)"

text \<open>
  \<^verbatim>\<open>_calculate_confidence\<close> (lines 171-194). The division by
  \<^verbatim>\<open>self.consecutive_frames\<close> raises when that threshold is zero.
\<close>

definition calculate_confidence :: "FallDetector \<Rightarrow> int \<Rightarrow> AlertSeverity \<Rightarrow> py_error + real" where
  "calculate_confidence self trigger_count sev =
     (let base_confidence = real_of_int trigger_count / 3;
          base_confidence = (if sev = SEVERE then base_confidence * 1.2
                             else if sev = MILD then base_confidence * 1.0
                             else base_confidence)
      in if consecutive_frames self = 0 then Inl ZeroDivisionError
         else
           (let frame_ratio =
                  min (real_of_int (consecutive_detections self) / real_of_int (consecutive_frames self)) 1;
                base_confidence = base_confidence * (0.5 + 0.5 * frame_ratio)
            in Inr (min base_confidence 1)))"

text \<open>
  The three rules of \<^verbatim>\<open>detect\<close> (lines 209-239), after the tracker has been
  updated: the list of reasons and the maximal severity.
\<close>

definition evaluate_rules ::
  "FallDetector \<Rightarrow> real option \<Rightarrow> real option \<Rightarrow> py_error + trigger_reason list \<times> AlertSeverity" where
  "evaluate_rules self torso head =
     (let (reasons1, sev1) =
            (case torso of
               None \<Rightarrow> ([], NONE)
             | Some a \<Rightarrow>
                 (let (is_abnormal, sev) = check_torso_angle self a
                  in if is_abnormal
                     then ([TorsoAngleAbnormal a],
                           if severity_value sev > severity_value NONE then sev else NONE)
                     else ([], NONE)));
          (reasons2, sev2) =
            (case head of
               None \<Rightarrow> (reasons1, sev1)
             | Some h \<Rightarrow>
                 if check_head_drop self h
                 then (reasons1 @ [HeadHeightDrop], if sev1 = NONE then MILD else sev1)
                 else (reasons1, sev1))
      in case check_center_shift self of
           Inl e \<Rightarrow> Inl e
         | Inr shifted \<Rightarrow>
             Inr (if shifted
                  then (reasons2 @ [CenterLargeShift], if sev2 = NONE then MILD else sev2)
                  else (reasons2, sev2)))"

text \<open>The debounce counter (lines 242-247).\<close>

definition update_consecutive :: "bool \<Rightarrow> int \<Rightarrow> int" where
  "update_consecutive has_trigger c = (if has_trigger then c + 1 else max 0 (c - 1))"

text \<open>The multi-condition cross validation (lines 249-254): \<^verbatim>\<open>should_alert\<close> before the cooldown.\<close>

definition cross_validate :: "trigger_reason list \<Rightarrow> int \<Rightarrow> int \<Rightarrow> bool" where
  "cross_validate reasons c frames =
     (if length reasons \<ge> 2 then True
      else if c \<ge> frames then True
      else False)"

text \<open>
  \<^verbatim>\<open>detect\<close> (lines 196-276). The result is the outcome of the call (the exception
  or the \<^verbatim>\<open>DetectionResult\<close>) together with the object as the call leaves it: an
  exception does not undo the assignments made before it.
\<close>

definition detect ::
  "FallDetector \<Rightarrow> landmarks \<Rightarrow> int \<Rightarrow> clock_reads \<Rightarrow> (py_error + DetectionResult) \<times> FallDetector" where
  "detect self landmarks frame_height clk =
     (let torso = calculate_torso_angle landmarks;
          body_center = calculate_body_center landmarks
      in case calculate_head_height_ratio landmarks frame_height of
           Inl e \<Rightarrow> (Inl e, self)
         | Inr head \<Rightarrow>
             (let self1 = self\<lparr>angle_tracker := update (angle_tracker self) torso body_center head\<rparr>
              in case evaluate_rules self1 torso head of
                   Inl e \<Rightarrow> (Inl e, self1)
                 | Inr (reasons, max_severity) \<Rightarrow>
                     (let has_trigger = length reasons > 0;
                          self2 = self1\<lparr>consecutive_detections :=
                                    update_consecutive has_trigger (consecutive_detections self1)\<rparr>;
                          should_alert =
                            cross_validate reasons (consecutive_detections self2) (consecutive_frames self2);
                          should_alert =
                            (if should_alert \<and> is_in_cooldown self2 (t_cooldown clk) then False
                             else should_alert);
                          self3 = (if should_alert then self2\<lparr>last_alert_time := t_alert clk\<rparr> else self2)
                      in case calculate_confidence self3 (int (length reasons)) max_severity of
                           Inl e \<Rightarrow> (Inl e, self3)
                         | Inr conf \<Rightarrow>
                             (Inr \<lparr>is_fall_detected = should_alert,
                                   severity = max_severity,
                                   torso_angle = torso,
                                   head_height = head,
                                   center_shift = get_center_shift (angle_tracker self3),
                                   trigger_reasons = reasons,
                                   timestamp = t_stamp clk,
                                   confidence = conf\<rparr>,
                              self3))))"

text \<open>
  Executions. A frame is one call of \<^verbatim>\<open>detect\<close> with its arguments and clock reads;
  \<open>detect_all\<close> delivers the frames in order to one detector, as the main loop of
  \<^verbatim>\<open>app.py\<close> does, and returns the outcomes and the final object.
\<close>

type_synonym frame = "landmarks \<times> int \<times> clock_reads"

fun detect_all :: "FallDetector \<Rightarrow> frame list \<Rightarrow> (py_error + DetectionResult) list \<times> FallDetector" where
  "detect_all self [] = ([], self)"
| "detect_all self ((landmarks, frame_height, clk) # rest) =
     (let (out, self') = detect self landmarks frame_height clk;
          (outs, self'') = detect_all self' rest
      in (out # outs, self''))"

text \<open>
  An execution of one detector object is a list of method calls; \<open>exec\<close> returns the
  object after all of them.
\<close>

datatype call =
    Detect landmarks int clock_reads
  | Calibrate real point
  | ResetCalibration
  | ForceResetCooldown

fun exec_call :: "FallDetector \<Rightarrow> call \<Rightarrow> FallDetector" where
  "exec_call self (Detect landmarks frame_height clk) = snd (detect self landmarks frame_height clk)"
| "exec_call self (Calibrate hh center) = calibrate self hh center"
| "exec_call self ResetCalibration = reset_calibration self"
| "exec_call self ForceResetCooldown = force_reset_cooldown self"

fun exec :: "FallDetector \<Rightarrow> call list \<Rightarrow> FallDetector" where
  "exec self [] = self"
| "exec self (c # cs) = exec (exec_call self c) cs"

text \<open>
  A call that is not \<^verbatim>\<open>force_reset_cooldown\<close> and, for \<^verbatim>\<open>detect\<close>, whose clock does
  not run backwards between the cooldown test and the assignment of the alert time.
\<close>

fun ordinary_call :: "call \<Rightarrow> bool" where
  "ordinary_call (Detect landmarks frame_height clk) = (t_cooldown clk \<le> t_alert clk)"
| "ordinary_call (Calibrate hh center) = True"
| "ordinary_call ResetCalibration = True"
| "ordinary_call ForceResetCooldown = False"

text \<open>Properties of the outcome of one \<^verbatim>\<open>detect\<close> call.\<close>

fun single_trigger :: "py_error + DetectionResult \<Rightarrow> bool" where
  "single_trigger (Inl e) = False"
| "single_trigger (Inr r) = (length (trigger_reasons r) = 1)"

fun alarm :: "py_error + DetectionResult \<Rightarrow> bool" where
  "alarm (Inl e) = False"
| "alarm (Inr r) = is_fall_detected r"

fun no_alarm :: "py_error + DetectionResult \<Rightarrow> bool" where
  "no_alarm (Inl e) = False"
| "no_alarm (Inr r) = (\<not> is_fall_detected r)"

section \<open>Concrete inputs\<close>

text \<open>
  A clock whose three reads during one call return the same value.
\<close>

definition clk_at :: "real \<Rightarrow> clock_reads" where
  "clk_at t = \<lparr>t_cooldown = t, t_alert = t, t_stamp = t\<rparr>"

text \<open>
  Joint maps: an upright subject (torso angle 0), the same subject 400 pixels to the
  right, a lying subject (torso angle 90), the lying subject with a low nose, and a
  nose alone at height \<open>y\<close>.
\<close>

definition lm_upright :: landmarks where
  "lm_upright = [''left_shoulder'' \<mapsto> (100, 100), ''right_shoulder'' \<mapsto> (200, 100),
                 ''left_hip'' \<mapsto> (100, 300), ''right_hip'' \<mapsto> (200, 300)]"

definition lm_upright_far :: landmarks where
  "lm_upright_far = [''left_shoulder'' \<mapsto> (500, 100), ''right_shoulder'' \<mapsto> (600, 100),
                     ''left_hip'' \<mapsto> (500, 300), ''right_hip'' \<mapsto> (600, 300)]"

definition lm_lying :: landmarks where
  "lm_lying = [''left_shoulder'' \<mapsto> (100, 100), ''right_shoulder'' \<mapsto> (100, 100),
               ''left_hip'' \<mapsto> (200, 100), ''right_hip'' \<mapsto> (200, 100)]"

definition lm_lying_nose :: landmarks where
  "lm_lying_nose = lm_lying(''nose'' \<mapsto> (50, 400))"

definition lm_nose :: "int \<Rightarrow> landmarks" where
  "lm_nose y = [''nose'' \<mapsto> (320, y)]"

text \<open>
  A tracker that has seen the body centre jump from \<open>(0, 0)\<close> to \<open>(3, 4)\<close> and back.
\<close>

definition tracker_there_and_back :: AngleTracker where
  "tracker_there_and_back =
     update (update (update (AngleTracker_init 30) None (Some (0, 0)) None)
                    None (Some (3, 4)) None)
            None (Some (0, 0)) None"

text \<open>Five frames of the lying subject, all read at clock time \<open>t\<close>.\<close>

definition five_lying_frames :: "real \<Rightarrow> frame list" where
  "five_lying_frames t =
     [(lm_lying, 480, clk_at t), (lm_lying, 480, clk_at t), (lm_lying, 480, clk_at t),
      (lm_lying, 480, clk_at t), (lm_lying, 480, clk_at t)]"

section \<open>The windowed maximum of the centre shift\<close>

lemma py_index_neg:
  assumes "i < 0" and "- int (length xs) \<le> i"
  shows "py_index xs i = Inr (xs ! (length xs - nat (- i)))"
proof -
  from assms have "nat (int (length xs) + i) = length xs - nat (- i)"
    by linarith
  with assms show ?thesis
    by (simp add: py_index_def)
qed

lemma collect_shifts_in_range:
  "\<forall>i \<in> set idx. i < 0 \<and> - int (length h) < i \<Longrightarrow>
   collect_shifts h idx =
     Inr (map (\<lambda>i. calculate_center_shift (h ! (length h - nat (- i)))
                                          (h ! (length h - nat (- i) - 1))) idx)"
proof (induction idx)
  case Nil
  then show ?case by simp
next
  case (Cons i idx)
  then have i: "i < 0" "- int (length h) < i"
    by simp_all
  have a: "py_index h i = Inr (h ! (length h - nat (- i)))"
    using i by (simp add: py_index_neg)
  have b: "py_index h (i - 1) = Inr (h ! (length h - nat (- i) - 1))"
  proof -
    have "length h - nat (- (i - 1)) = length h - nat (- i) - 1"
      using i by linarith
    then show ?thesis
      using i py_index_neg [of "i - 1" h] by simp
  qed
  from Cons a b show ?case by simp
qed

lemma py_max_Max: "xs \<noteq> [] \<Longrightarrow> py_max xs = Inr (Max (set xs))"
  by (cases xs) (simp_all add: Max.set_eq_fold [symmetric])

lemma get_max_center_shift_short:
  "length (center_history t) < 2 \<Longrightarrow> get_max_center_shift t K = Inr None"
  by (simp add: get_max_center_shift_def)

lemma get_max_center_shift_nonpos:
  "K \<le> 0 \<Longrightarrow> get_max_center_shift t K = Inr None"
  by (simp add: get_max_center_shift_def Let_def min_def)

lemma get_max_center_shift_window:
  assumes len: "2 \<le> length (center_history t)" and K: "1 \<le> K"
  shows "get_max_center_shift t K =
     Inr (Some (Max ((\<lambda>j. calculate_center_shift (center_history t ! j) (center_history t ! (j - 1))) `
        {length (center_history t) - nat (min K (int (length (center_history t)) - 1))
           ..< length (center_history t)})))"
proof -
  define h where "h = center_history t"
  define cf where "cf = min K (int (length h) - 1)"
  define f where "f = (\<lambda>i. calculate_center_shift (h ! (length h - nat (- i)))
                                                  (h ! (length h - nat (- i) - 1)))"
  define g where "g = (\<lambda>j. calculate_center_shift (h ! j) (h ! (j - 1)))"
  have cf: "1 \<le> cf" "cf \<le> int (length h) - 1"
    using len K by (simp_all add: cf_def h_def)
  have rng: "\<forall>i \<in> set [- cf .. - 1]. i < 0 \<and> - int (length h) < i"
    using cf by auto
  have cs: "collect_shifts h [- cf .. - 1] = Inr (map f [- cf .. - 1])"
    unfolding f_def by (rule collect_shifts_in_range [OF rng])
  have ne: "map f [- cf .. - 1] \<noteq> []"
    using cf by (simp add: upto_rec1)
  have fg: "f = (\<lambda>i. g (length h - nat (- i)))"
    by (simp add: f_def g_def)
  have img: "(\<lambda>i. length h - nat (- i)) ` {- cf .. - 1} = {length h - nat cf ..< length h}"
  proof (rule set_eqI, rule iffI)
    fix j assume "j \<in> (\<lambda>i. length h - nat (- i)) ` {- cf .. - 1}"
    then obtain i where "- cf \<le> i" "i \<le> - 1" "j = length h - nat (- i)"
      by auto
    then show "j \<in> {length h - nat cf ..< length h}"
      using cf by auto
  next
    fix j assume j: "j \<in> {length h - nat cf ..< length h}"
    then have "int j - int (length h) \<in> {- cf .. - 1}"
      using cf by auto
    moreover have "j = length h - nat (- (int j - int (length h)))"
      using j by auto
    ultimately show "j \<in> (\<lambda>i. length h - nat (- i)) ` {- cf .. - 1}"
      by (rule rev_image_eqI)
  qed
  have "set (map f [- cf .. - 1]) = g ` {length h - nat cf ..< length h}"
  proof -
    have "set (map f [- cf .. - 1]) = g ` ((\<lambda>i. length h - nat (- i)) ` {- cf .. - 1})"
      by (simp add: fg image_image)
    then show ?thesis
      by (simp only: img)
  qed
  then have "py_max (map f [- cf .. - 1]) = Inr (Max (g ` {length h - nat cf ..< length h}))"
    using py_max_Max [OF ne] by simp
  then show ?thesis
    using len cs ne
    by (simp add: get_max_center_shift_def Let_def h_def [symmetric] cf_def [symmetric] g_def)
qed

lemma get_max_center_shift_no_error: "get_max_center_shift t K \<noteq> Inl e"
proof (cases "length (center_history t) < 2")
  case True
  then show ?thesis
    by (simp add: get_max_center_shift_short)
next
  case False
  then show ?thesis
    by (cases "K \<le> 0") (simp_all add: get_max_center_shift_nonpos get_max_center_shift_window)
qed

lemma sqrt_25: "sqrt 25 = 5"
  using real_sqrt_abs [of 5] by simp

lemma center_history_there_and_back:
  "center_history tracker_there_and_back = [(0, 0), (3, 4), (0, 0)]"
  by (simp add: tracker_there_and_back_def update_def append_evict_def AngleTracker_init_def)

text \<open>
  C6. With fewer than two buffered centre points \<open>get_max_center_shift\<close> is absent. With
  at least two and a window \<open>K \<ge> 1\<close> it is the maximum, over the last
  \<open>min K (length - 1)\<close> adjacent pairs \<open>(j - 1, j)\<close> of the buffer, of the Euclidean
  distance between the two samples of the pair. It is not the net displacement over the
  window: for the buffer \<open>(0,0), (3,4), (0,0)\<close> the result is 5 while the oldest and the
  newest sample coincide.
\<close>

theorem get_max_center_shift_pairwise_max:
  "(length (center_history t) < 2 \<longrightarrow> get_max_center_shift t K = Inr None) \<and>
   (2 \<le> length (center_history t) \<and> 1 \<le> K \<longrightarrow>
      get_max_center_shift t K =
        Inr (Some (Max ((\<lambda>j. calculate_center_shift (center_history t ! j) (center_history t ! (j - 1))) `
           {length (center_history t) - nat (min K (int (length (center_history t)) - 1))
              ..< length (center_history t)})))) \<and>
   (get_max_center_shift tracker_there_and_back 5 = Inr (Some 5) \<and>
    calculate_center_shift (last (center_history tracker_there_and_back))
                           (hd (center_history tracker_there_and_back)) = 0)"
proof (intro conjI impI)
  assume "length (center_history t) < 2"
  then show "get_max_center_shift t K = Inr None"
    by (rule get_max_center_shift_short)
next
  assume "2 \<le> length (center_history t) \<and> 1 \<le> K"
  then show "get_max_center_shift t K =
        Inr (Some (Max ((\<lambda>j. calculate_center_shift (center_history t ! j) (center_history t ! (j - 1))) `
           {length (center_history t) - nat (min K (int (length (center_history t)) - 1))
              ..< length (center_history t)})))"
    by (simp add: get_max_center_shift_window)
next
  show "get_max_center_shift tracker_there_and_back 5 = Inr (Some 5)"
    by (simp add: get_max_center_shift_def center_history_there_and_back Let_def upto.simps
        py_index_def calculate_center_shift_def sqrt_25)
next
  show "calculate_center_shift (last (center_history tracker_there_and_back))
                               (hd (center_history tracker_there_and_back)) = 0"
    by (simp add: center_history_there_and_back calculate_center_shift_def)
qed

theorem get_max_center_shift_pairwise_max_witness:
  "length (center_history (AngleTracker_init 30)) < 2 \<and>
   get_max_center_shift (AngleTracker_init 30) 5 = Inr None \<and>
   2 \<le> length (center_history tracker_there_and_back) \<and> (1::int) \<le> 5 \<and>
   get_max_center_shift tracker_there_and_back 5 =
     Inr (Some (Max ((\<lambda>j. calculate_center_shift (center_history tracker_there_and_back ! j)
                                                 (center_history tracker_there_and_back ! (j - 1))) `
        {length (center_history tracker_there_and_back)
           - nat (min 5 (int (length (center_history tracker_there_and_back)) - 1))
           ..< length (center_history tracker_there_and_back)})))"
proof -
  have h1: "length (center_history (AngleTracker_init 30)) < 2"
    by (simp add: AngleTracker_init_def)
  have h2: "2 \<le> length (center_history tracker_there_and_back) \<and> (1::int) \<le> 5"
    by (simp add: center_history_there_and_back)
  show ?thesis
    using h1 h2
      get_max_center_shift_pairwise_max [of "AngleTracker_init 30" 5]
      get_max_center_shift_pairwise_max [of tracker_there_and_back 5]
    by blast
qed

section \<open>One call of \<^verbatim>\<open>detect\<close>\<close>

lemma check_center_shift_no_error: "check_center_shift self \<noteq> Inl e"
  using get_max_center_shift_no_error [of "angle_tracker self" 5]
  by (cases "get_max_center_shift (angle_tracker self) 5") (simp_all add: check_center_shift_def)

lemma evaluate_rules_no_error: "evaluate_rules self torso head \<noteq> Inl e"
  using check_center_shift_no_error [of self]
  by (cases "check_center_shift self") (simp_all add: evaluate_rules_def Let_def split: prod.splits)

lemma evaluate_rules_severe:
  assumes "evaluate_rules self torso head = Inr (reasons, sev)"
  shows "sev = SEVERE \<longleftrightarrow> (\<exists>a. torso = Some a \<and> severe_angle_min self \<le> a)"
  using assms
  by (auto simp add: evaluate_rules_def check_torso_angle_def Let_def
      split: sum.splits option.splits if_splits prod.splits)

lemma evaluate_rules_torso_reason:
  assumes "evaluate_rules self torso head = Inr (reasons, sev)"
  shows "TorsoAngleAbnormal a \<in> set reasons \<longleftrightarrow>
           torso = Some a \<and> (severe_angle_min self \<le> a \<or> fst (mild_angle_range self) \<le> a)"
  using assms
  by (auto simp add: evaluate_rules_def check_torso_angle_def Let_def
      split: sum.splits option.splits if_splits prod.splits)

lemma evaluate_rules_head_reason:
  assumes "evaluate_rules self torso head = Inr (reasons, sev)"
  shows "HeadHeightDrop \<in> set reasons \<longleftrightarrow> (\<exists>h. head = Some h \<and> check_head_drop self h)"
  using assms
  by (auto simp add: evaluate_rules_def check_torso_angle_def Let_def
      split: sum.splits option.splits if_splits prod.splits)

lemma evaluate_rules_center_reason:
  assumes "evaluate_rules self torso head = Inr (reasons, sev)"
  shows "CenterLargeShift \<in> set reasons \<longleftrightarrow> check_center_shift self = Inr True"
  using assms
  by (auto simp add: evaluate_rules_def check_torso_angle_def Let_def
      split: sum.splits option.splits if_splits prod.splits)

lemma evaluate_rules_mild:
  assumes "evaluate_rules self torso head = Inr (reasons, sev)"
    and "reasons \<noteq> []" and "\<forall>a. TorsoAngleAbnormal a \<notin> set reasons"
  shows "sev = MILD"
  using assms
  by (auto simp add: evaluate_rules_def check_torso_angle_def Let_def
      split: sum.splits option.splits if_splits prod.splits)

lemma evaluate_rules_none:
  assumes "evaluate_rules self torso head = Inr (reasons, sev)"
  shows "sev = NONE \<longleftrightarrow> reasons = []"
  using assms
  by (auto simp add: evaluate_rules_def check_torso_angle_def Let_def
      split: sum.splits option.splits if_splits prod.splits)

lemma detect_Inr:
  assumes "detect self lm fh clk = (Inr r, s')"
  obtains head reasons sev conf where
    "calculate_head_height_ratio lm fh = Inr head"
    "evaluate_rules (self\<lparr>angle_tracker := update (angle_tracker self) (calculate_torso_angle lm) (calculate_body_center lm) head\<rparr>)
        (calculate_torso_angle lm) head = Inr (reasons, sev)"
    "calculate_confidence s' (int (length reasons)) sev = Inr conf"
    "r = \<lparr>is_fall_detected =
            (cross_validate reasons (update_consecutive (0 < length reasons) (consecutive_detections self)) (consecutive_frames self)
             \<and> \<not> is_in_cooldown self (t_cooldown clk)),
          severity = sev, torso_angle = calculate_torso_angle lm, head_height = head,
          center_shift = get_center_shift (update (angle_tracker self) (calculate_torso_angle lm) (calculate_body_center lm) head),
          trigger_reasons = reasons, timestamp = t_stamp clk, confidence = conf\<rparr>"
    "s' = self\<lparr>angle_tracker := update (angle_tracker self) (calculate_torso_angle lm) (calculate_body_center lm) head,
             consecutive_detections := update_consecutive (0 < length reasons) (consecutive_detections self),
             last_alert_time := (if is_fall_detected r then t_alert clk else last_alert_time self)\<rparr>"
  using assms
  by (auto simp add: detect_def Let_def is_in_cooldown_def split: sum.splits prod.splits if_splits)

lemma detect_returns:
  assumes "fh \<noteq> 0 \<or> lm ''nose'' = None" and "consecutive_frames self \<noteq> 0"
  shows "\<exists>r s'. detect self lm fh clk = (Inr r, s')"
proof -
  have "\<exists>head. calculate_head_height_ratio lm fh = Inr head"
    using assms(1) by (cases "lm ''nose''") (auto simp add: calculate_head_height_ratio_def Let_def)
  then obtain head where h: "calculate_head_height_ratio lm fh = Inr head" ..
  define self1 where "self1 = self\<lparr>angle_tracker := update (angle_tracker self) (calculate_torso_angle lm) (calculate_body_center lm) head\<rparr>"
  obtain reasons sev where e: "evaluate_rules self1 (calculate_torso_angle lm) head = Inr (reasons, sev)"
    using evaluate_rules_no_error [of self1 "calculate_torso_angle lm" head]
    by (cases "evaluate_rules self1 (calculate_torso_angle lm) head") auto
  show ?thesis
    using h e assms(2)
    by (simp add: detect_def Let_def self1_def calculate_confidence_def)
qed

section \<open>Calibration and construction\<close>

text \<open>
  C10. \<open>calibrate\<close> sets the three baseline fields and leaves every other field, among
  them the debounce counter, the alert time and the tracker, as it was.
  \<open>reset_calibration\<close> clears the three baseline fields and the three tracker buffers
  and leaves the debounce counter, the alert time, the tracker capacity and the
  configuration as they were.
\<close>

theorem calibration_frame_effect:
  "consecutive_detections (calibrate s hh c) = consecutive_detections s \<and>
   last_alert_time (calibrate s hh c) = last_alert_time s \<and>
   angle_tracker (calibrate s hh c) = angle_tracker s \<and>
   baseline_head_height (calibrate s hh c) = Some hh \<and>
   baseline_center (calibrate s hh c) = Some c \<and>
   is_calibrated (calibrate s hh c) \<and>
   torso_angle_threshold (calibrate s hh c) = torso_angle_threshold s \<and>
   head_drop_threshold (calibrate s hh c) = head_drop_threshold s \<and>
   center_shift_threshold (calibrate s hh c) = center_shift_threshold s \<and>
   consecutive_frames (calibrate s hh c) = consecutive_frames s \<and>
   cooldown_seconds (calibrate s hh c) = cooldown_seconds s \<and>
   mild_angle_range (calibrate s hh c) = mild_angle_range s \<and>
   severe_angle_min (calibrate s hh c) = severe_angle_min s \<and>
   consecutive_detections (reset_calibration s) = consecutive_detections s \<and>
   last_alert_time (reset_calibration s) = last_alert_time s \<and>
   baseline_head_height (reset_calibration s) = None \<and>
   baseline_center (reset_calibration s) = None \<and>
   \<not> is_calibrated (reset_calibration s) \<and>
   torso_history (angle_tracker (reset_calibration s)) = [] \<and>
   center_history (angle_tracker (reset_calibration s)) = [] \<and>
   head_height_history (angle_tracker (reset_calibration s)) = [] \<and>
   history_size (angle_tracker (reset_calibration s)) = history_size (angle_tracker s) \<and>
   torso_angle_threshold (reset_calibration s) = torso_angle_threshold s \<and>
   head_drop_threshold (reset_calibration s) = head_drop_threshold s \<and>
   center_shift_threshold (reset_calibration s) = center_shift_threshold s \<and>
   consecutive_frames (reset_calibration s) = consecutive_frames s \<and>
   cooldown_seconds (reset_calibration s) = cooldown_seconds s \<and>
   mild_angle_range (reset_calibration s) = mild_angle_range s \<and>
   severe_angle_min (reset_calibration s) = severe_angle_min s"
  by (simp add: calibrate_def reset_calibration_def reset_def)

text \<open>
  C4, as the code has it. The constructor validates nothing: for every configuration,
  valid or not, the call returns an instance that stores the arguments as given, with
  the counter at 0, the alert time at 0, an empty tracker of capacity 30 and no
  baseline.
\<close>

theorem constructor_accepts_every_configuration:
  "FallDetector_new torso_thr head_thr center_thr frames cooldown mild_range severe_min =
     Inr \<lparr>torso_angle_threshold = torso_thr,
          head_drop_threshold = head_thr,
          center_shift_threshold = center_thr,
          consecutive_frames = frames,
          cooldown_seconds = cooldown,
          mild_angle_range = mild_range,
          severe_angle_min = severe_min,
          angle_tracker = \<lparr>history_size = 30, torso_history = [], center_history = [],
                            head_height_history = []\<rparr>,
          consecutive_detections = 0,
          last_alert_time = 0,
          baseline_head_height = None,
          baseline_center = None,
          is_calibrated = False\<rparr>"
  by (simp add: FallDetector_new_def FallDetector_init_def AngleTracker_init_def)

text \<open>
  The claim C4 as stated fails: with negative thresholds, a negative frame count, a
  negative cooldown and the inverted mild range \<open>(50, 35)\<close> the constructor returns an
  instance, not a validation error.
\<close>

theorem constructor_invalid_configuration_accepted:
  "FallDetector_new (- 35) (- 0.15) (- 150) (- 5) (- 30) (50, 35) 50 =
     Inr \<lparr>torso_angle_threshold = - 35,
          head_drop_threshold = - 0.15,
          center_shift_threshold = - 150,
          consecutive_frames = - 5,
          cooldown_seconds = - 30,
          mild_angle_range = (50, 35),
          severe_angle_min = 50,
          angle_tracker = \<lparr>history_size = 30, torso_history = [], center_history = [],
                            head_height_history = []\<rparr>,
          consecutive_detections = 0,
          last_alert_time = 0,
          baseline_head_height = None,
          baseline_center = None,
          is_calibrated = False\<rparr>"
  by (simp add: FallDetector_new_def FallDetector_init_def AngleTracker_init_def)

section \<open>The head height ratio\<close>

text \<open>
  What the code computes: with the nose present and a positive frame height the result
  is the nose's y-coordinate divided by the frame height, with no clamping, so it lies
  in \<open>[0, 1]\<close> only when the nose lies inside the frame, \<open>0 \<le> y \<le> frame_height\<close>.
\<close>

lemma calculate_head_height_ratio_unclamped:
  assumes "landmarks ''nose'' = Some (x, y)" and "0 < frame_height"
  shows "calculate_head_height_ratio landmarks frame_height =
           Inr (Some (real_of_int y / real_of_int frame_height)) \<and>
         ((0 \<le> real_of_int y / real_of_int frame_height \<and>
           real_of_int y / real_of_int frame_height \<le> 1) \<longleftrightarrow> (0 \<le> y \<and> y \<le> frame_height))"
  using assms
  by (simp add: calculate_head_height_ratio_def zero_le_divide_iff)

text \<open>
  C7. The claim, like the docstring of \<^verbatim>\<open>calculate_head_height_ratio\<close> (``0.0 ~ 1.0''),
  says that the returned ratio lies in \<open>[0, 1]\<close> for every joint map with a nose and
  every positive frame height. The code breaks it: the pose source scales a landmark to
  pixels without clamping it to the frame, and for a nose 500 pixels down in a frame
  480 pixels high the function returns \<open>25 / 24\<close>, above 1.
\<close>

theorem head_height_ratio_above_one:
  "calculate_head_height_ratio (lm_nose 500) 480 = Inr (Some (25 / 24)) \<and> (1::real) < 25 / 24"
  by (simp add: calculate_head_height_ratio_def lm_nose_def)

section \<open>Evaluation on the concrete inputs\<close>

lemma torso_lying: "calculate_torso_angle lm_lying = Some 90"
  by (simp add: lm_lying_def calculate_torso_angle_def calculate_angle_from_vertical_def
      py_int_def py_atan2_def py_degrees_def)

lemma center_lying: "calculate_body_center lm_lying = Some (166, 100)"
  by (simp add: lm_lying_def calculate_body_center_def py_int_def)

lemma head_lying: "calculate_head_height_ratio lm_lying 480 = Inr None"
  by (simp add: lm_lying_def calculate_head_height_ratio_def)

lemma torso_lying_nose: "calculate_torso_angle lm_lying_nose = Some 90"
  by (simp add: lm_lying_nose_def lm_lying_def calculate_torso_angle_def calculate_angle_from_vertical_def
      py_int_def py_atan2_def py_degrees_def)

lemma center_lying_nose: "calculate_body_center lm_lying_nose = Some (166, 100)"
  by (simp add: lm_lying_nose_def lm_lying_def calculate_body_center_def py_int_def)

lemma head_lying_nose: "calculate_head_height_ratio lm_lying_nose 480 = Inr (Some (5 / 6))"
  by (simp add: lm_lying_nose_def lm_lying_def calculate_head_height_ratio_def)

lemma torso_nose: "calculate_torso_angle (lm_nose y) = None"
  by (simp add: lm_nose_def calculate_torso_angle_def)

lemma center_nose: "calculate_body_center (lm_nose y) = None"
  by (simp add: lm_nose_def calculate_body_center_def)

lemma head_nose: "fh \<noteq> 0 \<Longrightarrow> calculate_head_height_ratio (lm_nose y) fh = Inr (Some (real_of_int y / real_of_int fh))"
  by (simp add: lm_nose_def calculate_head_height_ratio_def)

lemma torso_empty: "calculate_torso_angle Map.empty = None"
  by (simp add: calculate_torso_angle_def)

lemma center_empty: "calculate_body_center Map.empty = None"
  by (simp add: calculate_body_center_def)

lemma head_empty: "calculate_head_height_ratio Map.empty fh = Inr None"
  by (simp add: calculate_head_height_ratio_def)

lemmas detect_eval =
  detect_def update_def append_evict_def evaluate_rules_def check_torso_angle_def
  check_head_drop_def check_center_shift_def get_max_center_shift_def get_head_height_change_def
  get_center_shift_def py_index_def calculate_center_shift_def update_consecutive_def
  cross_validate_def is_in_cooldown_def calculate_confidence_def clk_at_def Let_def upto.simps

lemmas state_eval =
  default_detector_def FallDetector_init_def AngleTracker_init_def calibrate_def

lemma less_sqrt_iff: "0 \<le> a \<Longrightarrow> a < sqrt b \<longleftrightarrow> a\<^sup>2 < b"
  using real_sqrt_less_iff [of "a\<^sup>2" b] by simp

lemma torso_upright: "calculate_torso_angle lm_upright = Some 0"
  by (simp add: lm_upright_def calculate_torso_angle_def calculate_angle_from_vertical_def
      py_int_def py_atan2_def py_degrees_def)

lemma center_upright: "calculate_body_center lm_upright = Some (150, 233)"
  by (simp add: lm_upright_def calculate_body_center_def py_int_def)

lemma head_upright: "calculate_head_height_ratio lm_upright 480 = Inr None"
  by (simp add: lm_upright_def calculate_head_height_ratio_def)

lemma torso_upright_far: "calculate_torso_angle lm_upright_far = Some 0"
  by (simp add: lm_upright_far_def calculate_torso_angle_def calculate_angle_from_vertical_def
      py_int_def py_atan2_def py_degrees_def)

lemma center_upright_far: "calculate_body_center lm_upright_far = Some (550, 233)"
  by (simp add: lm_upright_far_def calculate_body_center_def py_int_def)

lemma head_upright_far: "calculate_head_height_ratio lm_upright_far 480 = Inr None"
  by (simp add: lm_upright_far_def calculate_head_height_ratio_def)

lemma two_rules_fire:
  "detect (calibrate default_detector 0 (0, 0)) lm_lying_nose 480 (clk_at 1000) =
     (Inr \<lparr>is_fall_detected = True, severity = SEVERE, torso_angle = Some 90,
            head_height = Some (5 / 6), center_shift = None,
            trigger_reasons = [TorsoAngleAbnormal 90, HeadHeightDrop],
            timestamp = 1000, confidence = 12 / 25\<rparr>,
      \<lparr>torso_angle_threshold = 35, head_drop_threshold = 3 / 20,
        center_shift_threshold = 150, consecutive_frames = 5,
        cooldown_seconds = 30, mild_angle_range = (35, 50),
        severe_angle_min = 50,
        angle_tracker =
          \<lparr>history_size = 30, torso_history = [90],
            center_history = [(166, 100)], head_height_history = [5 / 6]\<rparr>,
        consecutive_detections = 1, last_alert_time = 1000,
        baseline_head_height = Some 0, baseline_center = Some (0, 0),
        is_calibrated = True\<rparr>)"
  by (simp add: detect_eval state_eval torso_lying_nose center_lying_nose head_lying_nose)

lemma head_only_mild:
  "detect (calibrate default_detector 0 (0, 0)) (lm_nose 400) 480 (clk_at 1000) =
     (Inr \<lparr>is_fall_detected = False, severity = MILD, torso_angle = None,
            head_height = Some (5 / 6), center_shift = None,
            trigger_reasons = [HeadHeightDrop], timestamp = 1000,
            confidence = 1 / 5\<rparr>,
      \<lparr>torso_angle_threshold = 35, head_drop_threshold = 3 / 20,
        center_shift_threshold = 150, consecutive_frames = 5,
        cooldown_seconds = 30, mild_angle_range = (35, 50),
        severe_angle_min = 50,
        angle_tracker =
          \<lparr>history_size = 30, torso_history = [], center_history = [],
            head_height_history = [5 / 6]\<rparr>,
        consecutive_detections = 1, last_alert_time = 0,
        baseline_head_height = Some 0, baseline_center = Some (0, 0),
        is_calibrated = True\<rparr>)"
  by (simp add: detect_eval state_eval torso_nose center_nose head_nose)

lemma zero_height_raises:
  "detect default_detector (lm_nose 240) 0 (clk_at 1000) = (Inl ZeroDivisionError, default_detector)"
  by (simp add: detect_def calculate_head_height_ratio_def lm_nose_def)

lemma after_jump:
  "snd (detect_all default_detector
          [(lm_upright, 480, clk_at 1000), (lm_upright_far, 480, clk_at 1001)]) =
     \<lparr>torso_angle_threshold = 35, head_drop_threshold = 3 / 20,
       center_shift_threshold = 150, consecutive_frames = 5,
       cooldown_seconds = 30, mild_angle_range = (35, 50),
       severe_angle_min = 50,
       angle_tracker =
         \<lparr>history_size = 30, torso_history = [0, 0],
           center_history = [(150, 233), (550, 233)],
           head_height_history = []\<rparr>,
       consecutive_detections = 1, last_alert_time = 0,
       baseline_head_height = None, baseline_center = None,
       is_calibrated = False\<rparr>"
  by (simp add: detect_eval state_eval torso_upright center_upright head_upright
      torso_upright_far center_upright_far head_upright_far less_sqrt_iff)

lemma empty_frame_after_jump:
  "map_sum id trigger_reasons
     (fst (detect (snd (detect_all default_detector
                          [(lm_upright, 480, clk_at 1000), (lm_upright_far, 480, clk_at 1001)]))
             Map.empty 480 (clk_at 1002))) = Inr [CenterLargeShift]"
  unfolding after_jump
  by (simp add: detect_eval torso_empty center_empty head_empty less_sqrt_iff)

section \<open>Alarm eligibility and severity\<close>

text \<open>
  C1. For every call of \<open>detect\<close> that returns, the eligibility flag computed by the
  cross validation is true exactly when at least two rules triggered on this frame or
  the counter, as updated by this call, has reached \<open>consecutive_frames\<close>; the returned
  flag is the eligibility flag gated by the cooldown. In particular, on a calibrated
  default detector one frame that triggers the torso rule and the head-drop rule raises
  the alarm with the counter at 1, below the threshold 5.
\<close>

theorem alarm_eligibility:
  "(detect s lm fh clk = (Inr r, s') \<longrightarrow>
      (cross_validate (trigger_reasons r) (consecutive_detections s') (consecutive_frames s') \<longleftrightarrow>
         2 \<le> length (trigger_reasons r) \<or> consecutive_frames s' \<le> consecutive_detections s') \<and>
      (is_fall_detected r \<longleftrightarrow>
         (2 \<le> length (trigger_reasons r) \<or> consecutive_frames s' \<le> consecutive_detections s') \<and>
         \<not> t_cooldown clk - last_alert_time s < cooldown_seconds s) \<and>
      consecutive_detections s' =
        (if trigger_reasons r \<noteq> [] then consecutive_detections s + 1
         else max 0 (consecutive_detections s - 1))) \<and>
   (\<exists>r2 s2. detect (calibrate default_detector 0 (0, 0)) lm_lying_nose 480 (clk_at 1000) = (Inr r2, s2) \<and>
      length (trigger_reasons r2) = 2 \<and>
      consecutive_detections s2 < consecutive_frames s2 \<and>
      is_fall_detected r2)"
proof (intro conjI impI)
  assume d: "detect s lm fh clk = (Inr r, s')"
  show "cross_validate (trigger_reasons r) (consecutive_detections s') (consecutive_frames s') \<longleftrightarrow>
          2 \<le> length (trigger_reasons r) \<or> consecutive_frames s' \<le> consecutive_detections s'"
    by (simp add: cross_validate_def)
  from d show "is_fall_detected r \<longleftrightarrow>
         (2 \<le> length (trigger_reasons r) \<or> consecutive_frames s' \<le> consecutive_detections s') \<and>
         \<not> t_cooldown clk - last_alert_time s < cooldown_seconds s"
    by (rule detect_Inr) (simp add: cross_validate_def is_in_cooldown_def)
  from d show "consecutive_detections s' =
        (if trigger_reasons r \<noteq> [] then consecutive_detections s + 1
         else max 0 (consecutive_detections s - 1))"
    by (rule detect_Inr) (simp add: update_consecutive_def)
next
  show "\<exists>r2 s2. detect (calibrate default_detector 0 (0, 0)) lm_lying_nose 480 (clk_at 1000) = (Inr r2, s2) \<and>
      length (trigger_reasons r2) = 2 \<and>
      consecutive_detections s2 < consecutive_frames s2 \<and>
      is_fall_detected r2"
    by (simp add: two_rules_fire)
qed

theorem alarm_eligibility_witness:
  "\<exists>r s'. detect (calibrate default_detector 0 (0, 0)) (lm_nose 400) 480 (clk_at 1000) = (Inr r, s') \<and>
     \<not> is_fall_detected r \<and>
     length (trigger_reasons r) = 1 \<and>
     consecutive_detections s' = 1 \<and> consecutive_frames s' = 5 \<and>
     \<not> cross_validate (trigger_reasons r) (consecutive_detections s') (consecutive_frames s')"
proof -
  obtain r s' where
    d: "detect (calibrate default_detector 0 (0, 0)) (lm_nose 400) 480 (clk_at 1000) = (Inr r, s')"
    and v: "\<not> is_fall_detected r" "length (trigger_reasons r) = 1"
      "consecutive_detections s' = 1" "consecutive_frames s' = 5"
    by (simp add: head_only_mild)
  from d alarm_eligibility
    [of "calibrate default_detector 0 (0, 0)" "lm_nose 400" 480 "clk_at 1000" r s']
  have "cross_validate (trigger_reasons r) (consecutive_detections s') (consecutive_frames s') \<longleftrightarrow>
          2 \<le> length (trigger_reasons r) \<or> consecutive_frames s' \<le> consecutive_detections s'"
    by blast
  with v have "\<not> cross_validate (trigger_reasons r) (consecutive_detections s') (consecutive_frames s')"
    by simp
  with d v show ?thesis
    by blast
qed

text \<open>
  C9. For every call of \<open>detect\<close> that returns, the severity is \<open>SEVERE\<close> exactly when
  the torso angle was computable and at least \<open>severe_angle_min\<close>; when at least one
  rule triggered and every triggered rule is the head-drop or the centre-shift rule,
  the severity is \<open>MILD\<close>.
\<close>

theorem severity_severe_iff_torso:
  assumes "detect s lm fh clk = (Inr r, s')"
  shows "(severity r = SEVERE \<longleftrightarrow>
            (\<exists>a. calculate_torso_angle lm = Some a \<and> severe_angle_min s \<le> a)) \<and>
         (trigger_reasons r \<noteq> [] \<and> set (trigger_reasons r) \<subseteq> {HeadHeightDrop, CenterLargeShift}
            \<longrightarrow> severity r = MILD)"
proof -
  from assms obtain head reasons sev where
    e: "evaluate_rules
          (s\<lparr>angle_tracker := update (angle_tracker s) (calculate_torso_angle lm)
                                (calculate_body_center lm) head\<rparr>)
          (calculate_torso_angle lm) head = Inr (reasons, sev)"
    and r: "trigger_reasons r = reasons" "severity r = sev"
    by (rule detect_Inr) simp
  have "sev = SEVERE \<longleftrightarrow> (\<exists>a. calculate_torso_angle lm = Some a \<and> severe_angle_min s \<le> a)"
    using evaluate_rules_severe [OF e] by simp
  moreover have "sev = MILD"
    if "reasons \<noteq> []" and "set reasons \<subseteq> {HeadHeightDrop, CenterLargeShift}"
  proof -
    from that(2) have "\<forall>a. TorsoAngleAbnormal a \<notin> set reasons"
      by auto
    with e that(1) show ?thesis
      by (rule evaluate_rules_mild)
  qed
  ultimately show ?thesis
    using r by simp
qed

theorem severity_severe_iff_torso_witness:
  "(\<exists>r s'. detect (calibrate default_detector 0 (0, 0)) (lm_nose 400) 480 (clk_at 1000) = (Inr r, s') \<and>
      trigger_reasons r = [HeadHeightDrop] \<and> severity r = MILD \<and>
      calculate_torso_angle (lm_nose 400) = None) \<and>
   (\<exists>r s'. detect (calibrate default_detector 0 (0, 0)) lm_lying_nose 480 (clk_at 1000) = (Inr r, s') \<and>
      severity r = SEVERE \<and> calculate_torso_angle lm_lying_nose = Some 90 \<and>
      severe_angle_min (calibrate default_detector 0 (0, 0)) \<le> 90)"
proof -
  have sm: "severe_angle_min (calibrate default_detector 0 (0, 0)) \<le> 90"
    by (simp add: state_eval)
  show ?thesis
    using sm severity_severe_iff_torso [OF head_only_mild] severity_severe_iff_torso [OF two_rules_fire]
    by (simp add: head_only_mild two_rules_fire torso_nose torso_lying_nose)
qed

section \<open>Missing joints\<close>

lemma calculate_torso_angle_None_iff:
  "calculate_torso_angle lm = None \<longleftrightarrow>
     lm ''left_shoulder'' = None \<or> lm ''right_shoulder'' = None \<or>
     lm ''left_hip'' = None \<or> lm ''right_hip'' = None"
  by (simp add: calculate_torso_angle_def Let_def split: option.splits)

lemma calculate_body_center_None_iff:
  "calculate_body_center lm = None \<longleftrightarrow>
     lm ''left_shoulder'' = None \<or> lm ''right_shoulder'' = None \<or>
     lm ''left_hip'' = None \<or> lm ''right_hip'' = None"
  by (simp add: calculate_body_center_def Let_def split: option.splits)

lemma calculate_head_height_ratio_None_iff:
  "calculate_head_height_ratio lm fh = Inr head \<Longrightarrow> head = None \<longleftrightarrow> lm ''nose'' = None"
  by (auto simp add: calculate_head_height_ratio_def Let_def split: option.splits if_splits)

lemma center_history_update_None:
  "center_history (update t torso None head) = center_history t"
  by (simp add: update_def append_evict_def)

text \<open>
  C5, as the code has it. For every joint map, every frame height that is not zero (or
  any frame height when the nose is missing) and every detector whose
  \<open>consecutive_frames\<close> is not zero, \<open>detect\<close> returns a result. The torso angle is
  absent exactly when a shoulder or a hip is missing, and then the torso rule does not
  trigger; the head height is absent exactly when the nose is missing, and then the
  head-drop rule does not trigger; the body centre is absent exactly when a shoulder
  or a hip is missing, and then the centre buffer is left as it was.
\<close>

theorem detect_returns_on_partial_joint_maps:
  assumes "fh \<noteq> 0 \<or> lm ''nose'' = None" and "consecutive_frames s \<noteq> 0"
  shows "\<exists>r s'. detect s lm fh clk = (Inr r, s') \<and>
     torso_angle r = calculate_torso_angle lm \<and>
     (torso_angle r = None \<longleftrightarrow>
        lm ''left_shoulder'' = None \<or> lm ''right_shoulder'' = None \<or>
        lm ''left_hip'' = None \<or> lm ''right_hip'' = None) \<and>
     (torso_angle r = None \<longrightarrow> (\<forall>a. TorsoAngleAbnormal a \<notin> set (trigger_reasons r))) \<and>
     (head_height r = None \<longleftrightarrow> lm ''nose'' = None) \<and>
     (head_height r = None \<longrightarrow> HeadHeightDrop \<notin> set (trigger_reasons r)) \<and>
     (calculate_body_center lm = None \<longleftrightarrow>
        lm ''left_shoulder'' = None \<or> lm ''right_shoulder'' = None \<or>
        lm ''left_hip'' = None \<or> lm ''right_hip'' = None) \<and>
     (calculate_body_center lm = None \<longrightarrow>
        center_history (angle_tracker s') = center_history (angle_tracker s))"
proof -
  from detect_returns [of fh lm s clk] assms
  obtain r s' where d: "detect s lm fh clk = (Inr r, s')"
    by blast
  from d obtain head reasons sev where
    h: "calculate_head_height_ratio lm fh = Inr head"
    and e: "evaluate_rules
          (s\<lparr>angle_tracker := update (angle_tracker s) (calculate_torso_angle lm)
                                (calculate_body_center lm) head\<rparr>)
          (calculate_torso_angle lm) head = Inr (reasons, sev)"
    and r: "trigger_reasons r = reasons" "torso_angle r = calculate_torso_angle lm"
      "head_height r = head"
    and t: "angle_tracker s' =
              update (angle_tracker s) (calculate_torso_angle lm) (calculate_body_center lm) head"
    by (rule detect_Inr) simp
  have 1: "torso_angle r = None \<longrightarrow> (\<forall>a. TorsoAngleAbnormal a \<notin> set (trigger_reasons r))"
    using evaluate_rules_torso_reason [OF e] r by simp
  have 2: "head_height r = None \<longrightarrow> HeadHeightDrop \<notin> set (trigger_reasons r)"
    using evaluate_rules_head_reason [OF e] r by simp
  have 3: "head_height r = None \<longleftrightarrow> lm ''nose'' = None"
    using calculate_head_height_ratio_None_iff [OF h] r by simp
  have 4: "calculate_body_center lm = None \<longrightarrow>
             center_history (angle_tracker s') = center_history (angle_tracker s)"
    using t by (simp add: center_history_update_None)
  have 5: "torso_angle r = None \<longleftrightarrow>
        lm ''left_shoulder'' = None \<or> lm ''right_shoulder'' = None \<or>
        lm ''left_hip'' = None \<or> lm ''right_hip'' = None"
    using r(2) calculate_torso_angle_None_iff [of lm] by simp
  note 6 = calculate_body_center_None_iff [of lm]
  show ?thesis
    by (rule exI [of _ r], rule exI [of _ s']) (rule conjI d r(2) 1 2 3 4 5 6)+
qed

theorem detect_returns_on_partial_joint_maps_witness:
  "(480::int) \<noteq> 0 \<and> consecutive_frames default_detector \<noteq> 0 \<and>
   (\<exists>r s'. detect default_detector Map.empty 480 (clk_at 1000) = (Inr r, s') \<and>
      torso_angle r = None \<and> head_height r = None \<and>
      (\<forall>a. TorsoAngleAbnormal a \<notin> set (trigger_reasons r)) \<and>
      HeadHeightDrop \<notin> set (trigger_reasons r) \<and>
      center_history (angle_tracker s') = center_history (angle_tracker default_detector))"
proof -
  have c: "consecutive_frames default_detector \<noteq> 0"
    by (simp add: state_eval)
  have f: "(480::int) \<noteq> 0 \<or> Map.empty ''nose'' = (None :: point option)"
    by simp
  from detect_returns_on_partial_joint_maps [of 480 Map.empty default_detector "clk_at 1000"] f c
  have "\<exists>r s'. detect default_detector Map.empty 480 (clk_at 1000) = (Inr r, s') \<and>
      torso_angle r = None \<and>
      (torso_angle r = None \<longrightarrow> (\<forall>a. TorsoAngleAbnormal a \<notin> set (trigger_reasons r))) \<and>
      head_height r = None \<and>
      (head_height r = None \<longrightarrow> HeadHeightDrop \<notin> set (trigger_reasons r)) \<and>
      center_history (angle_tracker s') = center_history (angle_tracker default_detector)"
    by (simp add: torso_empty center_empty)
  then have "\<exists>r s'. detect default_detector Map.empty 480 (clk_at 1000) = (Inr r, s') \<and>
      torso_angle r = None \<and> head_height r = None \<and>
      (\<forall>a. TorsoAngleAbnormal a \<notin> set (trigger_reasons r)) \<and>
      HeadHeightDrop \<notin> set (trigger_reasons r) \<and>
      center_history (angle_tracker s') = center_history (angle_tracker default_detector)"
    by blast
  with c show ?thesis
    by simp
qed

text \<open>
  The claim C5 as stated fails in two ways. With the nose present and a frame height of
  zero the division in \<^verbatim>\<open>calculate_head_height_ratio\<close> raises, and so does
  \<open>detect\<close>. And the centre-shift rule reads the buffered centres, not the current
  frame: after the body centre has jumped by 400 pixels, a frame with no joint at all
  (body centre absent) still triggers the centre-shift rule.
\<close>

theorem detect_raises_or_triggers_without_joints:
  "detect default_detector (lm_nose 240) 0 (clk_at 1000) = (Inl ZeroDivisionError, default_detector) \<and>
   calculate_body_center Map.empty = None \<and>
   map_sum id trigger_reasons
     (fst (detect (snd (detect_all default_detector
                          [(lm_upright, 480, clk_at 1000), (lm_upright_far, 480, clk_at 1001)]))
             Map.empty 480 (clk_at 1002))) = Inr [CenterLargeShift]"
  by (simp only: zero_height_raises center_empty empty_frame_after_jump simp_thms)

section \<open>The cooldown\<close>

lemma detect_snd_cooldown_seconds:
  "cooldown_seconds (snd (detect s lm fh clk)) = cooldown_seconds s"
  by (simp add: detect_def Let_def split: sum.splits prod.splits)

lemma detect_snd_last_alert_time:
  "last_alert_time (snd (detect s lm fh clk)) = last_alert_time s \<or>
   (last_alert_time (snd (detect s lm fh clk)) = t_alert clk \<and>
    cooldown_seconds s \<le> t_cooldown clk - last_alert_time s)"
  by (auto simp add: detect_def Let_def is_in_cooldown_def not_less split: sum.splits prod.splits)

lemma exec_call_invariant:
  assumes "ordinary_call c" and "0 \<le> cooldown_seconds s" and "T \<le> last_alert_time s"
  shows "cooldown_seconds (exec_call s c) = cooldown_seconds s \<and> T \<le> last_alert_time (exec_call s c)"
proof (cases c)
  case (Detect lm fh clk)
  with assms(1) have m: "t_cooldown clk \<le> t_alert clk"
    by simp
  from detect_snd_last_alert_time [of s lm fh clk] assms(2,3) m
  have "T \<le> last_alert_time (snd (detect s lm fh clk))"
    by auto
  with Detect show ?thesis
    by (simp add: detect_snd_cooldown_seconds)
next
  case (Calibrate hh center)
  with assms show ?thesis by (simp add: calibrate_def)
next
  case ResetCalibration
  with assms show ?thesis by (simp add: reset_calibration_def)
next
  case ForceResetCooldown
  with assms show ?thesis by simp
qed

lemma exec_invariant:
  assumes "list_all ordinary_call cs" and "0 \<le> cooldown_seconds s" and "T \<le> last_alert_time s"
  shows "cooldown_seconds (exec s cs) = cooldown_seconds s \<and> T \<le> last_alert_time (exec s cs)"
  using assms
proof (induction cs arbitrary: s)
  case Nil
  then show ?case by simp
next
  case (Cons c cs)
  from Cons.prems have oc: "ordinary_call c" and rest: "list_all ordinary_call cs"
    by simp_all
  from exec_call_invariant [OF oc Cons.prems(2,3)]
  have 1: "cooldown_seconds (exec_call s c) = cooldown_seconds s"
    and 2: "T \<le> last_alert_time (exec_call s c)"
    by simp_all
  from Cons.prems(2) 1 have 3: "0 \<le> cooldown_seconds (exec_call s c)"
    by simp
  from Cons.IH [OF rest 3 2] 1 show ?case
    by simp
qed

text \<open>
  C2. Let an alarm fire: a call of \<open>detect\<close> returns \<open>is_fall_detected = True\<close>. Then
  \<open>last_alert_time\<close> is the clock value read at that moment; call it \<open>T\<close>. After any
  further calls of \<open>detect\<close>, \<open>calibrate\<close> and \<open>reset_calibration\<close> (not
  \<open>force_reset_cooldown\<close>, which exists to lift the cooldown), every call of \<open>detect\<close>
  whose timestamp lies in \<open>[T, T + cooldown_seconds)\<close> returns
  \<open>is_fall_detected = False\<close>, whatever rules trigger on it. The clock is assumed not
  to run backwards between the reads of one call.
\<close>

theorem cooldown_suppresses_alarms:
  assumes fire: "detect s lm fh clk = (Inr r, s1)" "is_fall_detected r"
    and calls: "list_all ordinary_call calls"
    and later: "detect (exec s1 calls) lm' fh' clk' = (Inr r', s2)"
    and clock: "t_cooldown clk' \<le> t_stamp clk'"
    and window: "last_alert_time s1 \<le> timestamp r'"
      "timestamp r' < last_alert_time s1 + cooldown_seconds s1"
  shows "last_alert_time s1 = t_alert clk \<and> \<not> is_fall_detected r'"
proof -
  from fire have T: "last_alert_time s1 = t_alert clk"
    by (auto elim!: detect_Inr)
  from window have cd: "0 \<le> cooldown_seconds s1"
    by simp
  from exec_invariant [OF calls cd order_refl]
  have inv: "cooldown_seconds (exec s1 calls) = cooldown_seconds s1"
    "last_alert_time s1 \<le> last_alert_time (exec s1 calls)"
    by simp_all
  from later have ts: "timestamp r' = t_stamp clk'"
    and fd: "is_fall_detected r' \<longrightarrow> \<not> is_in_cooldown (exec s1 calls) (t_cooldown clk')"
    by (auto elim!: detect_Inr)
  from window(2) ts clock inv have "is_in_cooldown (exec s1 calls) (t_cooldown clk')"
    by (simp add: is_in_cooldown_def)
  with fd T show ?thesis
    by simp
qed

lemma second_frame_in_cooldown:
  "detect (exec (snd (detect (calibrate default_detector 0 (0, 0)) lm_lying_nose 480 (clk_at 1000)))
             [Detect lm_lying_nose 480 (clk_at 1010), Calibrate 0 (0, 0)])
          lm_lying_nose 480 (clk_at 1020) =
     (Inr \<lparr>is_fall_detected = False, severity = SEVERE, torso_angle = Some 90,
            head_height = Some (5 / 6), center_shift = Some 0,
            trigger_reasons = [TorsoAngleAbnormal 90, HeadHeightDrop],
            timestamp = 1020, confidence = 16 / 25\<rparr>,
      \<lparr>torso_angle_threshold = 35, head_drop_threshold = 3 / 20,
        center_shift_threshold = 150, consecutive_frames = 5,
        cooldown_seconds = 30, mild_angle_range = (35, 50),
        severe_angle_min = 50,
        angle_tracker =
          \<lparr>history_size = 30, torso_history = [90, 90, 90],
            center_history = [(166, 100), (166, 100), (166, 100)],
            head_height_history = [5 / 6, 5 / 6, 5 / 6]\<rparr>,
        consecutive_detections = 3, last_alert_time = 1000,
        baseline_head_height = Some 0, baseline_center = Some (0, 0),
        is_calibrated = True\<rparr>)"
  unfolding two_rules_fire
  by (simp add: detect_eval calibrate_def torso_lying_nose center_lying_nose head_lying_nose)

theorem cooldown_suppresses_alarms_witness:
  "\<exists>r s1 r' s2.
     detect (calibrate default_detector 0 (0, 0)) lm_lying_nose 480 (clk_at 1000) = (Inr r, s1) \<and>
     is_fall_detected r \<and>
     list_all ordinary_call [Detect lm_lying_nose 480 (clk_at 1010), Calibrate 0 (0, 0)] \<and>
     detect (exec s1 [Detect lm_lying_nose 480 (clk_at 1010), Calibrate 0 (0, 0)])
        lm_lying_nose 480 (clk_at 1020) = (Inr r', s2) \<and>
     t_cooldown (clk_at 1020) \<le> t_stamp (clk_at 1020) \<and>
     last_alert_time s1 = 1000 \<and> cooldown_seconds s1 = 30 \<and> timestamp r' = 1020 \<and>
     length (trigger_reasons r') = 2 \<and>
     last_alert_time s1 = t_alert (clk_at 1000) \<and> \<not> is_fall_detected r'"
proof -
  obtain r s1 where
    d1: "detect (calibrate default_detector 0 (0, 0)) lm_lying_nose 480 (clk_at 1000) = (Inr r, s1)"
    and f: "is_fall_detected r"
    and v1: "last_alert_time s1 = 1000" "cooldown_seconds s1 = 30"
    by (simp add: two_rules_fire)
  have s1: "s1 = snd (detect (calibrate default_detector 0 (0, 0)) lm_lying_nose 480 (clk_at 1000))"
    by (simp add: d1)
  have "\<exists>r' s2.
      detect (exec s1 [Detect lm_lying_nose 480 (clk_at 1010), Calibrate 0 (0, 0)])
        lm_lying_nose 480 (clk_at 1020) = (Inr r', s2) \<and>
      timestamp r' = 1020 \<and> length (trigger_reasons r') = 2"
    unfolding s1 second_frame_in_cooldown by simp
  then obtain r' s2 where
    d2: "detect (exec s1 [Detect lm_lying_nose 480 (clk_at 1010), Calibrate 0 (0, 0)])
           lm_lying_nose 480 (clk_at 1020) = (Inr r', s2)"
    and v2: "timestamp r' = 1020" "length (trigger_reasons r') = 2"
    by blast
  have oc: "list_all ordinary_call [Detect lm_lying_nose 480 (clk_at 1010), Calibrate 0 (0, 0)]"
    by (simp add: clk_at_def)
  have ck: "t_cooldown (clk_at 1020) \<le> t_stamp (clk_at 1020)"
    by (simp add: clk_at_def)
  have w: "last_alert_time s1 \<le> timestamp r'" "timestamp r' < last_alert_time s1 + cooldown_seconds s1"
    using v1 v2 by simp_all
  from cooldown_suppresses_alarms [OF d1 f oc d2 ck w]
  have "last_alert_time s1 = t_alert (clk_at 1000) \<and> \<not> is_fall_detected r'" .
  with d1 f oc d2 ck v1 v2 show ?thesis
    by blast
qed

section \<open>The debounce counter\<close>

lemma detect_all_append:
  "detect_all s (xs @ ys) =
     (fst (detect_all s xs) @ fst (detect_all (snd (detect_all s xs)) ys),
      snd (detect_all (snd (detect_all s xs)) ys))"
  by (induction xs arbitrary: s) (auto simp add: split_def Let_def)

lemma cross_validate_iff:
  "cross_validate reasons c n \<longleftrightarrow> 2 \<le> length reasons \<or> n \<le> c"
  by (simp add: cross_validate_def)

lemma detect_single_trigger:
  assumes "detect s lm fh clk = (out, s')" and "single_trigger out"
  shows "consecutive_detections s' = consecutive_detections s + 1 \<and>
         consecutive_frames s' = consecutive_frames s \<and>
         cooldown_seconds s' = cooldown_seconds s \<and>
         (alarm out \<longleftrightarrow> consecutive_frames s \<le> consecutive_detections s + 1 \<and>
                         cooldown_seconds s \<le> t_cooldown clk - last_alert_time s) \<and>
         (no_alarm out \<longleftrightarrow> \<not> alarm out) \<and>
         (\<not> alarm out \<longrightarrow> last_alert_time s' = last_alert_time s)"
proof (cases out)
  case (Inl e)
  with assms show ?thesis by simp
next
  case (Inr r)
  with assms have d: "detect s lm fh clk = (Inr r, s')" and l: "length (trigger_reasons r) = 1"
    by simp_all
  from d l Inr show ?thesis
    by (auto elim!: detect_Inr simp add: update_consecutive_def cross_validate_iff is_in_cooldown_def)
qed

lemma debounce_prefix:
  assumes "detect_all s fs = (outs, s')" and "list_all single_trigger outs"
    and "consecutive_detections s + int (length fs) < consecutive_frames s"
  shows "list_all no_alarm outs \<and>
         consecutive_detections s' = consecutive_detections s + int (length fs) \<and>
         consecutive_frames s' = consecutive_frames s \<and>
         cooldown_seconds s' = cooldown_seconds s \<and>
         last_alert_time s' = last_alert_time s"
  using assms
proof (induction fs arbitrary: s outs)
  case Nil
  then show ?case by simp
next
  case (Cons f fs)
  obtain lm fh clk where f: "f = (lm, fh, clk)"
    by (cases f) auto
  obtain out s1 where d: "detect s lm fh clk = (out, s1)"
    by (cases "detect s lm fh clk") auto
  obtain outs1 where r: "detect_all s1 fs = (outs1, s')" and o: "outs = out # outs1"
    using Cons.prems(1) f d by (auto simp add: Let_def split: prod.splits)
  from Cons.prems(2) o have st: "single_trigger out" and rest: "list_all single_trigger outs1"
    by simp_all
  note step = detect_single_trigger [OF d st]
  from step Cons.prems(3) have na: "\<not> alarm out"
    by simp
  from step Cons.prems(3) have c: "consecutive_detections s1 + int (length fs) < consecutive_frames s1"
    by simp
  from Cons.IH [OF r rest c] step na o show ?case
    by simp
qed


lemma detect_counter:
  "detect s lm fh clk = (Inr r, s1) \<Longrightarrow>
   consecutive_detections s1 =
     (if trigger_reasons r \<noteq> [] then consecutive_detections s + 1
      else max 0 (consecutive_detections s - 1))"
  by (erule detect_Inr) (simp add: update_consecutive_def)

lemma detect_all_take:
  "fst (detect_all s (take k fs)) = take k (fst (detect_all s fs))"
proof (induction fs arbitrary: s k)
  case Nil
  then show ?case by simp
next
  case (Cons f fs)
  then show ?case
    by (cases k; cases f) (simp_all add: split_def Let_def)
qed

lemma single_trigger_counter:
  "list_all single_trigger (fst (detect_all s fs)) \<Longrightarrow>
   consecutive_detections (snd (detect_all s fs)) = consecutive_detections s + int (length fs)"
proof (induction fs arbitrary: s)
  case Nil
  then show ?case by simp
next
  case (Cons f fs)
  obtain lm fh clk where f: "f = (lm, fh, clk)"
    by (cases f) auto
  obtain out s1 where d: "detect s lm fh clk = (out, s1)"
    by (cases "detect s lm fh clk") auto
  from Cons.prems f d have st: "single_trigger out"
    and rest: "list_all single_trigger (fst (detect_all s1 fs))"
    by (simp_all add: split_def Let_def)
  from detect_single_trigger [OF d st] Cons.IH [OF rest] f d show ?case
    by (simp add: split_def Let_def)
qed

text \<open>
  C3. Start from a freshly constructed detector (counter 0, \<open>last_alert_time = 0\<close>, the
  value that stands for ``never alerted'') with \<open>consecutive_frames = n \<ge> 1\<close> and
  deliver exactly \<open>n\<close> frames, each of which returns with exactly one triggered rule.
  Then the counter is \<open>k\<close> after the first \<open>k\<close> frames, the frames \<open>1\<close> to \<open>n - 1\<close> return
  \<open>is_fall_detected = False\<close>, and frame \<open>n\<close> returns \<open>is_fall_detected = True\<close>, for
  the first time. In every call that returns, the counter goes up by one when a rule
  triggered and down by one, not below zero, otherwise.

  The clock enters through the hypothesis \<open>elapsed\<close>: the value that \<^verbatim>\<open>time.time()\<close>
  returns on frame \<open>n\<close> is at least \<open>cooldown_seconds\<close>. \<^verbatim>\<open>detect\<close> reads the wall
  clock, whose value is the number of seconds since 1970, so the hypothesis holds for
  every cooldown shorter than the time since the epoch.
\<close>

theorem debounce_first_alarm:
  assumes fresh: "s0 = FallDetector_init a b c n cd mr sm"
    and n: "1 \<le> n" and len: "int (length fs) = n"
    and run: "detect_all s0 fs = (outs, s')"
    and single: "list_all single_trigger outs"
    and elapsed: "cd \<le> t_cooldown (snd (snd (last fs)))"
  shows "list_all no_alarm (butlast outs) \<and> alarm (last outs) \<and>
         (\<forall>k \<le> length fs. consecutive_detections (snd (detect_all s0 (take k fs))) = int k) \<and>
         (\<forall>s lm fh clk r s1. detect s lm fh clk = (Inr r, s1) \<longrightarrow>
            consecutive_detections s1 =
              (if trigger_reasons r \<noteq> [] then consecutive_detections s + 1
               else max 0 (consecutive_detections s - 1)))"
proof -
  from n len have ne: "fs \<noteq> []"
    by auto
  obtain lm fh clk where l: "last fs = (lm, fh, clk)"
    by (cases "last fs") auto
  from ne l have fs: "fs = butlast fs @ [(lm, fh, clk)]"
    by (metis append_butlast_last_id)
  define o1 where "o1 = fst (detect_all s0 (butlast fs))"
  define s1 where "s1 = snd (detect_all s0 (butlast fs))"
  obtain out s2 where d: "detect s1 lm fh clk = (out, s2)"
    by (cases "detect s1 lm fh clk") auto
  have "detect_all s0 (butlast fs @ [(lm, fh, clk)]) = (o1 @ [out], s2)"
    using d by (simp add: detect_all_append o1_def s1_def)
  with fs run have outs: "outs = o1 @ [out]" and s': "s' = s2"
    by simp_all
  from single outs have st1: "list_all single_trigger o1" and st: "single_trigger out"
    by simp_all
  have p: "detect_all s0 (butlast fs) = (o1, s1)"
    by (simp add: o1_def s1_def)
  have s0: "consecutive_detections s0 = 0" "consecutive_frames s0 = n"
    "cooldown_seconds s0 = cd" "last_alert_time s0 = 0"
    by (simp_all add: fresh FallDetector_init_def)
  have lb: "int (length (butlast fs)) = n - 1"
    using len ne by (cases fs rule: rev_cases) auto
  have "consecutive_detections s0 + int (length (butlast fs)) < consecutive_frames s0"
    using s0 lb by simp
  from debounce_prefix [OF p st1 this] s0 lb
  have pre: "list_all no_alarm o1" "consecutive_detections s1 = n - 1"
    "consecutive_frames s1 = n" "cooldown_seconds s1 = cd" "last_alert_time s1 = 0"
    by simp_all
  from elapsed l have "cd \<le> t_cooldown clk"
    by simp
  with detect_single_trigger [OF d st] pre have a: "alarm out"
    by simp
  have cnt: "consecutive_detections (snd (detect_all s0 (take k fs))) = int k" if "k \<le> length fs" for k
  proof -
    from single run have "list_all single_trigger (take k (fst (detect_all s0 fs)))"
      by (auto simp add: list_all_iff dest: in_set_takeD)
    then have "list_all single_trigger (fst (detect_all s0 (take k fs)))"
      by (simp add: detect_all_take)
    from single_trigger_counter [OF this] s0 that show ?thesis
      by simp
  qed
  from pre(1) a outs cnt detect_counter show ?thesis
    by simp
qed

theorem debounce_first_alarm_witness:
  "(1::int) \<le> 5 \<and> int (length (five_lying_frames 1700000000)) = 5 \<and>
   list_all single_trigger (fst (detect_all default_detector (five_lying_frames 1700000000))) \<and>
   (30::real) \<le> t_cooldown (snd (snd (last (five_lying_frames 1700000000)))) \<and>
   list_all no_alarm (butlast (fst (detect_all default_detector (five_lying_frames 1700000000)))) \<and>
   alarm (last (fst (detect_all default_detector (five_lying_frames 1700000000)))) \<and>
   consecutive_detections (snd (detect_all default_detector (take 3 (five_lying_frames 1700000000)))) = 3"
proof -
  have len: "int (length (five_lying_frames 1700000000)) = 5"
    by (simp add: five_lying_frames_def)
  have run: "detect_all default_detector (five_lying_frames 1700000000) =
               (fst (detect_all default_detector (five_lying_frames 1700000000)),
                snd (detect_all default_detector (five_lying_frames 1700000000)))"
    by simp
  have single: "list_all single_trigger (fst (detect_all default_detector (five_lying_frames 1700000000)))"
    by (simp add: five_lying_frames_def detect_eval state_eval torso_lying center_lying head_lying)
  have elapsed: "(30::real) \<le> t_cooldown (snd (snd (last (five_lying_frames 1700000000))))"
    by (simp add: five_lying_frames_def clk_at_def)
  have n: "(1::int) \<le> 5"
    by simp
  from debounce_first_alarm [OF default_detector_def n len run single elapsed] len
  have "list_all no_alarm (butlast (fst (detect_all default_detector (five_lying_frames 1700000000)))) \<and>
        alarm (last (fst (detect_all default_detector (five_lying_frames 1700000000)))) \<and>
        consecutive_detections (snd (detect_all default_detector (take 3 (five_lying_frames 1700000000)))) = 3"
    by simp
  with n len single elapsed show ?thesis
    by simp
qed

section \<open>An alarm on a frame without trigger\<close>

lemma state_after_six_frames:
  "snd (detect_all default_detector (five_lying_frames 1000 @ [(lm_lying, 480, clk_at 1001)])) =
     \<lparr>torso_angle_threshold = 35, head_drop_threshold = 3 / 20,
       center_shift_threshold = 150, consecutive_frames = 5,
       cooldown_seconds = 30, mild_angle_range = (35, 50),
       severe_angle_min = 50,
       angle_tracker =
         \<lparr>history_size = 30, torso_history = [90, 90, 90, 90, 90, 90],
           center_history =
             [(166, 100), (166, 100), (166, 100), (166, 100), (166, 100), (166, 100)],
           head_height_history = []\<rparr>,
       consecutive_detections = 6, last_alert_time = 1000,
       baseline_head_height = None, baseline_center = None,
       is_calibrated = False\<rparr>"
  by (simp add: five_lying_frames_def detect_eval state_eval torso_lying center_lying head_lying)

lemma empty_frame_after_six:
  "detect (snd (detect_all default_detector
                  (five_lying_frames 1000 @ [(lm_lying, 480, clk_at 1001)])))
          Map.empty 480 (clk_at 1031) =
     (Inr \<lparr>is_fall_detected = True, severity = NONE, torso_angle = None,
            head_height = None, center_shift = Some 0,
            trigger_reasons = [], timestamp = 1031, confidence = 0\<rparr>,
      \<lparr>torso_angle_threshold = 35, head_drop_threshold = 3 / 20,
        center_shift_threshold = 150, consecutive_frames = 5,
        cooldown_seconds = 30, mild_angle_range = (35, 50),
        severe_angle_min = 50,
        angle_tracker =
          \<lparr>history_size = 30, torso_history = [90, 90, 90, 90, 90, 90],
            center_history =
              [(166, 100), (166, 100), (166, 100), (166, 100), (166, 100), (166, 100)],
            head_height_history = []\<rparr>,
        consecutive_detections = 5, last_alert_time = 1031,
        baseline_head_height = None, baseline_center = None,
        is_calibrated = False\<rparr>)"
  unfolding state_after_six_frames
  by (simp add: detect_eval torso_empty center_empty head_empty)

text \<open>
  C8. There is a state reached from a fresh default detector by calls of \<open>detect\<close>, and
  a frame that triggers no rule, on which \<open>detect\<close> returns \<open>is_fall_detected = True\<close>
  with an empty list of reasons and severity \<open>NONE\<close>: the counter was above the
  threshold (it kept climbing while the cooldown suppressed the alarm), the frame
  lowers it by one, and it is still at the threshold. The frames are five frames of
  a lying subject at time 1000 (the fifth raises the alarm), a sixth at time 1001
  (suppressed, counter 6), and an empty joint map at time 1031.
\<close>

theorem alarm_without_trigger:
  "\<exists>frames lm fh clk r s'.
     detect (snd (detect_all default_detector frames)) lm fh clk = (Inr r, s') \<and>
     is_fall_detected r \<and> trigger_reasons r = [] \<and> severity r = NONE \<and>
     consecutive_frames s' < consecutive_detections (snd (detect_all default_detector frames)) \<and>
     consecutive_detections s' = consecutive_detections (snd (detect_all default_detector frames)) - 1 \<and>
     consecutive_frames s' \<le> consecutive_detections s'"
proof -
  let ?frames = "five_lying_frames 1000 @ [(lm_lying, 480, clk_at 1001)]"
  obtain r s' where d: "detect (snd (detect_all default_detector ?frames)) Map.empty 480 (clk_at 1031) = (Inr r, s')"
    and v: "is_fall_detected r" "trigger_reasons r = []" "severity r = NONE"
      "consecutive_frames s' = 5" "consecutive_detections s' = 5"
    by (simp add: empty_frame_after_six)
  have c: "consecutive_detections (snd (detect_all default_detector ?frames)) = 6"
    by (simp add: state_after_six_frames)
  from d v c have
    "detect (snd (detect_all default_detector ?frames)) Map.empty 480 (clk_at 1031) = (Inr r, s') \<and>
     is_fall_detected r \<and> trigger_reasons r = [] \<and> severity r = NONE \<and>
     consecutive_frames s' < consecutive_detections (snd (detect_all default_detector ?frames)) \<and>
     consecutive_detections s' = consecutive_detections (snd (detect_all default_detector ?frames)) - 1 \<and>
     consecutive_frames s' \<le> consecutive_detections s'"
    by simp
  then show ?thesis
    by blast
qed

end
